theory Spec2Isabelle
  imports Main "HOL-Library.Word"
begin

section \<open>X.509 certificate decoding: \<^verbatim>\<open>tlslite/x509.py\<close>\<close>

subsection \<open>Data\<close>

text \<open>
  A \<^verbatim>\<open>bytearray\<close> is a list of 8-bit values. Python's \<^verbatim>\<open>None\<close> in a field is
  \<open>None\<close> of an option type.
\<close>

type_synonym byte = "8 word"
type_synonym bytearray = "byte list"

text \<open>
  The exceptions that can leave \<^verbatim>\<open>parseBinary\<close>. The file raises \<^verbatim>\<open>SyntaxError\<close> with
  a message (the bare \<^verbatim>\<open>SyntaxError()\<close> of \<^verbatim>\<open>_rsaPubKeyParsing\<close> is the empty message);
  \<^verbatim>\<open>value[0]\<close> on an empty value raises \<^verbatim>\<open>IndexError\<close>; whatever else the imported
  helpers raise is an \<open>OtherError\<close>.
\<close>

datatype error = SyntaxError string | IndexError | OtherError string

type_synonym 'a result = "error + 'a"

text \<open>The three curve objects imported from \<^verbatim>\<open>ecdsa.curves\<close>.\<close>

datatype curve = NIST256p | NIST384p | NIST521p

text \<open>
  \<^verbatim>\<open>x509.py\<close> imports its helpers from modules that are not part of the file:
  \<^verbatim>\<open>ASN1Parser\<close> (\<^verbatim>\<open>utils/asn1parser.py\<close>), \<^verbatim>\<open>bytesToNumber\<close> and \<^verbatim>\<open>SHA1\<close>
  (\<^verbatim>\<open>utils/cryptomath.py\<close>), \<^verbatim>\<open>_createPublicRSAKey\<close> (\<^verbatim>\<open>utils/keyfactory.py\<close>),
  \<^verbatim>\<open>dePem\<close> (\<^verbatim>\<open>utils/pem.py\<close>) and \<^verbatim>\<open>VerifyingKey.from_string\<close> (the \<^verbatim>\<open>ecdsa\<close>
  package). They are parameters of the model: \<open>'n\<close> is the type of an ASN.1 node,
  \<open>'k\<close> the type of a key object, and every helper that can raise returns a result.
  \<open>nodeValue\<close> is the attribute \<^verbatim>\<open>value\<close> of a node. \<^verbatim>\<open>dePem\<close>, used by
  \<^verbatim>\<open>parse\<close> alone, is an argument of \<open>parse\<close>, and \<^verbatim>\<open>SHA1\<close>, used by
  \<^verbatim>\<open>getFingerprint\<close> alone, an argument of \<open>getFingerprint\<close>.
\<close>

record ('n, 'k) collaborators =
  ASN1Parser :: "bytearray \<Rightarrow> 'n result"
  getChild :: "'n \<Rightarrow> nat \<Rightarrow> 'n result"
  getChildBytes :: "'n \<Rightarrow> nat \<Rightarrow> bytearray result"
  getChildCount :: "'n \<Rightarrow> nat result"
  nodeValue :: "'n \<Rightarrow> bytearray"
  bytesToNumber :: "bytearray \<Rightarrow> int"
  createPublicRSAKey :: "int \<Rightarrow> int \<Rightarrow> 'k result"
  from_string :: "bytearray \<Rightarrow> curve \<Rightarrow> 'k result"

text \<open>The attributes of an \<^verbatim>\<open>X509\<close> object, and \<^verbatim>\<open>__init__\<close>.\<close>

record 'k X509 =
  bytes :: bytearray
  publicKey :: "'k option"
  subject :: "bytearray option"
  certAlg :: "string option"

definition X509_init :: "'k X509" where
  "X509_init = \<lparr>bytes = [], publicKey = None, subject = None, certAlg = None\<rparr>"

subsection \<open>Operations\<close>

text \<open>
  Every operation takes the object and returns the outcome together with the object as
  the call leaves it, also when the call raises: the assignments made before the
  \<^verbatim>\<open>raise\<close> stay.
\<close>

text \<open>\<^verbatim>\<open>value[0]\<close>: the first element, \<^verbatim>\<open>IndexError\<close> on the empty array.\<close>

definition index0 :: "bytearray \<Rightarrow> byte result" where
  "index0 v = (case v of [] \<Rightarrow> Inl IndexError | b # _ \<Rightarrow> Inr b)"

text \<open>\<^verbatim>\<open>_rsaPubKeyParsing\<close>.\<close>

definition rsaPubKeyParsing ::
  "('n, 'k) collaborators \<Rightarrow> 'n \<Rightarrow> 'k X509 \<Rightarrow> unit result \<times> 'k X509" where
  "rsaPubKeyParsing c subjectPublicKeyInfoP self =
    (case getChild c subjectPublicKeyInfoP 1 of
       Inl e \<Rightarrow> (Inl e, self)
     | Inr subjectPublicKeyP \<Rightarrow>
    (case index0 (nodeValue c subjectPublicKeyP) of
       Inl e \<Rightarrow> (Inl e, self)
     | Inr b \<Rightarrow>
    if b \<noteq> 0 then (Inl (SyntaxError []), self)
    else
    (case ASN1Parser c (drop 1 (nodeValue c subjectPublicKeyP)) of
       Inl e \<Rightarrow> (Inl e, self)
     | Inr subjectPublicKeyP' \<Rightarrow>
    (case getChild c subjectPublicKeyP' 0 of
       Inl e \<Rightarrow> (Inl e, self)
     | Inr modulusP \<Rightarrow>
    (case getChild c subjectPublicKeyP' 1 of
       Inl e \<Rightarrow> (Inl e, self)
     | Inr publicExponentP \<Rightarrow>
    (let n = bytesToNumber c (nodeValue c modulusP);
         e = bytesToNumber c (nodeValue c publicExponentP)
     in case createPublicRSAKey c n e of
          Inl err \<Rightarrow> (Inl err, self)
        | Inr k \<Rightarrow> (Inr (), self\<lparr>publicKey := Some k\<rparr>)))))))"

text \<open>\<^verbatim>\<open>_ecdsaPubKeyParsing\<close>.\<close>

definition ecdsaPubKeyParsing ::
  "('n, 'k) collaborators \<Rightarrow> 'n \<Rightarrow> curve \<Rightarrow> 'k X509 \<Rightarrow> unit result \<times> 'k X509" where
  "ecdsaPubKeyParsing c subjectPublicKeyInfoP curve self =
    (case getChild c subjectPublicKeyInfoP 1 of
       Inl e \<Rightarrow> (Inl e, self)
     | Inr n \<Rightarrow>
    (let derPubKey = nodeValue c n in
     if take 2 derPubKey \<noteq> [0, 4]
     then (Inl (SyntaxError ''Unexpected public key encoding''), self)
     else case from_string c (drop 2 derPubKey) curve of
            Inl e \<Rightarrow> (Inl e, self)
          | Inr k \<Rightarrow> (Inr (), self\<lparr>publicKey := Some k\<rparr>)))"

text \<open>
  \<^verbatim>\<open>parseBinary\<close>, lines 82 to 122: from the AlgorithmIdentifier to the key. The first
  chain of \<^verbatim>\<open>if\<close>s assigns \<^verbatim>\<open>self.certAlg\<close> or raises; the second chain tests
  \<^verbatim>\<open>self.certAlg\<close>.
\<close>

definition parseBinary_algorithm ::
  "('n, 'k) collaborators \<Rightarrow> 'n \<Rightarrow> 'k X509 \<Rightarrow> unit result \<times> 'k X509" where
  "parseBinary_algorithm c subjectPublicKeyInfoP self =
    (case getChild c subjectPublicKeyInfoP 0 of
       Inl e \<Rightarrow> (Inl e, self)
     | Inr algIdentifier \<Rightarrow>
    (case getChildCount c algIdentifier of
       Inl e \<Rightarrow> (Inl e, self)
     | Inr algIdentifierLen \<Rightarrow>
    (case getChild c algIdentifier 0 of
       Inl e \<Rightarrow> (Inl e, self)
     | Inr alg \<Rightarrow>
    (let algOID = nodeValue c alg in
    (case (if algOID = [42, 134, 72, 134, 247, 13, 1, 1, 1]
             then Inr (self\<lparr>certAlg := Some ''rsa''\<rparr>)
           else if algOID = [42, 134, 72, 134, 247, 13, 1, 1, 10]
             then Inr (self\<lparr>certAlg := Some ''rsa-pss''\<rparr>)
           else if algOID = [42, 134, 72, 206, 61, 2, 1]
             then Inr (self\<lparr>certAlg := Some ''ecdsa''\<rparr>)
           else Inl (SyntaxError ''Unrecognized AlgorithmIdentifier'')) of
       Inl e \<Rightarrow> (Inl e, self)
     | Inr self \<Rightarrow>
    if certAlg self = Some ''rsa'' then
      if algIdentifierLen \<noteq> 2
      then (Inl (SyntaxError ''Missing parameters in AlgorithmIdentifier''), self)
      else
      (case getChild c algIdentifier 1 of
         Inl e \<Rightarrow> (Inl e, self)
       | Inr params \<Rightarrow>
      if nodeValue c params \<noteq> []
      then (Inl (SyntaxError ''Unexpected non-NULL parameters in AlgorithmIdentifier''), self)
      else rsaPubKeyParsing c subjectPublicKeyInfoP self)
    else if certAlg self = Some ''ecdsa'' then
      if algIdentifierLen \<noteq> 2
      then (Inl (SyntaxError ''Missing parameters in AlgorithmIdentifier''), self)
      else
      (case getChild c algIdentifier 1 of
         Inl e \<Rightarrow> (Inl e, self)
       | Inr curveId \<Rightarrow>
      if nodeValue c curveId = [42, 134, 72, 206, 61, 3, 1, 7]
        then ecdsaPubKeyParsing c subjectPublicKeyInfoP NIST256p self
      else if nodeValue c curveId = [43, 129, 4, 0, 34]
        then ecdsaPubKeyParsing c subjectPublicKeyInfoP NIST384p self
      else if nodeValue c curveId = [43, 129, 4, 0, 35]
        then ecdsaPubKeyParsing c subjectPublicKeyInfoP NIST521p self
      else (Inl (SyntaxError ''Unknown elliptic curve''), self))
    else rsaPubKeyParsing c subjectPublicKeyInfoP self)))))"

text \<open>
  \<^verbatim>\<open>parseBinary\<close>, lines 61 to 80, followed by the rest above. The argument of the
  source is called \<^verbatim>\<open>bytes\<close>, as the attribute is.
\<close>

definition parseBinary ::
  "('n, 'k) collaborators \<Rightarrow> 'k X509 \<Rightarrow> bytearray \<Rightarrow> unit result \<times> 'k X509" where
  "parseBinary c self0 input =
    (let self = self0\<lparr>bytes := input\<rparr> in
    (case ASN1Parser c input of
       Inl e \<Rightarrow> (Inl e, self)
     | Inr p \<Rightarrow>
    (case getChild c p 0 of
       Inl e \<Rightarrow> (Inl e, self)
     | Inr tbsCertificateP \<Rightarrow>
    (case index0 (nodeValue c tbsCertificateP) of
       Inl e \<Rightarrow> (Inl e, self)
     | Inr b \<Rightarrow>
    (let subjectPublicKeyInfoIndex = (if b = 0xA0 then 6 else 5 :: nat) in
    (case getChildBytes c tbsCertificateP (subjectPublicKeyInfoIndex - 1) of
       Inl e \<Rightarrow> (Inl e, self)
     | Inr s \<Rightarrow>
    (let self = self\<lparr>subject := Some s\<rparr> in
    (case getChild c tbsCertificateP subjectPublicKeyInfoIndex of
       Inl e \<Rightarrow> (Inl e, self)
     | Inr subjectPublicKeyInfoP \<Rightarrow>
    parseBinary_algorithm c subjectPublicKeyInfoP self))))))))"

text \<open>\<^verbatim>\<open>parse\<close>: the PEM armour is removed by \<^verbatim>\<open>dePem\<close>, then \<^verbatim>\<open>parseBinary\<close>.\<close>

definition parse ::
  "(string \<Rightarrow> string \<Rightarrow> bytearray result) \<Rightarrow> ('n, 'k) collaborators \<Rightarrow>
   'k X509 \<Rightarrow> string \<Rightarrow> unit result \<times> 'k X509" where
  "parse dePem c self s =
    (case dePem s ''CERTIFICATE'' of
       Inl e \<Rightarrow> (Inl e, self)
     | Inr input \<Rightarrow> parseBinary c self input)"

text \<open>\<^verbatim>\<open>writeBytes\<close>.\<close>

definition writeBytes :: "'k X509 \<Rightarrow> bytearray" where
  "writeBytes self = bytes self"

text \<open>
  Modelled from the spec: \<^verbatim>\<open>b2a_hex\<close> reaches \<^verbatim>\<open>x509.py\<close> through
  \<^verbatim>\<open>from .utils.cryptomath import *\<close> and is not part of the file. The spec has the
  fingerprint as the lowercase hexadecimal form of the digest: two digits for each
  byte, the high one first.
\<close>

definition hexdigit :: "nat \<Rightarrow> char" where
  "hexdigit n = ''0123456789abcdef'' ! n"

definition b2a_hex :: "bytearray \<Rightarrow> string" where
  "b2a_hex bs = concat (map (\<lambda>b. [hexdigit (unat b div 16), hexdigit (unat b mod 16)]) bs)"

text \<open>\<^verbatim>\<open>getFingerprint\<close>.\<close>

definition getFingerprint :: "(bytearray \<Rightarrow> bytearray) \<Rightarrow> 'k X509 \<Rightarrow> string" where
  "getFingerprint SHA1 self = b2a_hex (SHA1 (bytes self))"

subsection \<open>A reference instance of the imported helpers\<close>

text \<open>
  The theorems below hold for every choice of the helpers. To run \<open>parseBinary\<close> on
  concrete certificates the helpers are instantiated here, as the spec describes them.
\<close>

text \<open>
  Modelled from the spec: the ASN.1 decoder (\<^verbatim>\<open>utils/asn1parser.py\<close> is not part of the
  file). A node is read from a tag byte, a DER length (short form up to 127, long form
  with the number of length bytes in the low seven bits) and that many value bytes; a
  truncated length or value is a decoding error. The node keeps its value bytes, and its
  children are the nodes read one after the other from the value.
\<close>

definition decodeError :: error where
  "decodeError = OtherError ''ASN.1 decoding error''"

definition be_nat :: "bytearray \<Rightarrow> nat" where
  "be_nat bs = foldl (\<lambda>a b. 256 * a + unat b) 0 bs"

definition getASN1Length :: "bytearray \<Rightarrow> (nat \<times> bytearray) result" where
  "getASN1Length p =
    (case p of
       [] \<Rightarrow> Inl decodeError
     | firstLength # rest \<Rightarrow>
         if unat firstLength \<le> 127 then Inr (unat firstLength, rest)
         else (let lengthLength = unat firstLength - 128 in
               if length rest < lengthLength then Inl decodeError
               else Inr (be_nat (take lengthLength rest), drop lengthLength rest)))"

text \<open>One node off the front of \<open>p\<close>: its whole encoding, its value, and what follows.\<close>

definition readNode :: "bytearray \<Rightarrow> (bytearray \<times> bytearray \<times> bytearray) result" where
  "readNode p =
    (case p of
       [] \<Rightarrow> Inl decodeError
     | tag # afterTag \<Rightarrow>
         (case getASN1Length afterTag of
            Inl e \<Rightarrow> Inl e
          | Inr (len, afterLength) \<Rightarrow>
              if length afterLength < len then Inl decodeError
              else Inr (take (length p - length afterLength + len) p,
                        take len afterLength, drop len afterLength)))"

definition der_ASN1Parser :: "bytearray \<Rightarrow> bytearray result" where
  "der_ASN1Parser p =
    (case readNode p of Inl e \<Rightarrow> Inl e | Inr (raw, v, rest) \<Rightarrow> Inr v)"

fun der_getChildBytes :: "bytearray \<Rightarrow> nat \<Rightarrow> bytearray result" where
  "der_getChildBytes v 0 =
    (case readNode v of Inl e \<Rightarrow> Inl e | Inr (raw, v', rest) \<Rightarrow> Inr raw)"
| "der_getChildBytes v (Suc which) =
    (case readNode v of Inl e \<Rightarrow> Inl e | Inr (raw, v', rest) \<Rightarrow> der_getChildBytes rest which)"

definition der_getChild :: "bytearray \<Rightarrow> nat \<Rightarrow> bytearray result" where
  "der_getChild v which =
    (case der_getChildBytes v which of Inl e \<Rightarrow> Inl e | Inr raw \<Rightarrow> der_ASN1Parser raw)"

function der_getChildCount :: "bytearray \<Rightarrow> nat result" where
  "der_getChildCount v =
    (if v = [] then Inr 0
     else (case readNode v of
             Inl e \<Rightarrow> Inl e
           | Inr x \<Rightarrow> (case der_getChildCount (snd (snd x)) of
                         Inl e \<Rightarrow> Inl e
                       | Inr count \<Rightarrow> Inr (Suc count))))"
  by pat_completeness auto
termination
proof (relation "measure length")
  show "wf (measure length)" by simp
next
  fix v :: bytearray and x
  assume "v \<noteq> []" and "readNode v = Inr x"
  then have "length (snd (snd x)) < length v"
    by (auto simp: readNode_def getASN1Length_def Let_def
             split: list.splits sum.splits if_splits prod.splits)
  then show "(snd (snd x), v) \<in> measure length" by simp
qed

text \<open>
  Modelled from the spec: the key objects and their constructors (\<^verbatim>\<open>utils/keyfactory.py\<close>
  and the \<^verbatim>\<open>ecdsa\<close> package are not part of the file). An RSA key is its modulus and
  exponent; an EC key is a curve with two coordinates, each of the byte length of the
  curve's field. Whether the point lies on the curve is not checked here.
\<close>

datatype pubkey = RSAKey int int | VerifyingKey curve bytearray bytearray

definition baselen :: "curve \<Rightarrow> nat" where
  "baselen cv = (case cv of NIST256p \<Rightarrow> 32 | NIST384p \<Rightarrow> 48 | NIST521p \<Rightarrow> 66)"

definition ref_createPublicRSAKey :: "int \<Rightarrow> int \<Rightarrow> pubkey result" where
  "ref_createPublicRSAKey n e = Inr (RSAKey n e)"

definition ref_from_string :: "bytearray \<Rightarrow> curve \<Rightarrow> pubkey result" where
  "ref_from_string s cv =
    (if length s = 2 * baselen cv
     then Inr (VerifyingKey cv (take (baselen cv) s) (drop (baselen cv) s))
     else Inl (OtherError ''MalformedPointError''))"

text \<open>Modelled from the spec: \<^verbatim>\<open>bytesToNumber\<close>, big-endian and unsigned.\<close>

definition ref_bytesToNumber :: "bytearray \<Rightarrow> int" where
  "ref_bytesToNumber bs = int (be_nat bs)"

text \<open>The helpers together. A node is its value bytes.\<close>

definition der_collaborators :: "(bytearray, pubkey) collaborators" where
  "der_collaborators =
    \<lparr>ASN1Parser = der_ASN1Parser,
     getChild = der_getChild,
     getChildBytes = der_getChildBytes,
     getChildCount = der_getChildCount,
     nodeValue = (\<lambda>v. v),
     bytesToNumber = ref_bytesToNumber,
     createPublicRSAKey = ref_createPublicRSAKey,
     from_string = ref_from_string\<rparr>"

subsection \<open>Example certificates\<close>

text \<open>
  Small certificates to run the parser on. \<open>tlv\<close> encodes a node whose content is
  shorter than 256 bytes: the length in one byte up to 127, and after the byte 0x81
  from 128 on. A certificate is the SEQUENCE of a tbsCertificate, an empty
  signature algorithm and an empty signature; the tbsCertificate holds the version (when
  asked for), a serial number, three empty SEQUENCEs for the signature algorithm, the
  issuer and the validity, the subject and the subjectPublicKeyInfo.
\<close>

definition tlv :: "byte \<Rightarrow> bytearray \<Rightarrow> bytearray" where
  "tlv tag content =
    (if length content < 128 then tag # of_nat (length content) # content
     else tag # 0x81 # of_nat (length content) # content)"

definition example_subject :: bytearray where
  "example_subject = tlv 0x30 (tlv 0x31 [])"

definition example_certificate :: "bool \<Rightarrow> bytearray \<Rightarrow> bytearray" where
  "example_certificate withVersion spki =
    tlv 0x30
      (tlv 0x30
         ((if withVersion then tlv 0xA0 [2, 1, 2] else []) @ [2, 1, 1]
          @ tlv 0x30 [] @ tlv 0x30 [] @ tlv 0x30 []
          @ example_subject @ spki)
       @ tlv 0x30 [] @ [3, 1, 0])"

text \<open>
  A subjectPublicKeyInfo from the value of the algorithm OID, the encoded parameters
  and the value of the BIT STRING: first its value, which is the node the parser works
  on, then its encoding.
\<close>

definition example_spki_value :: "bytearray \<Rightarrow> bytearray \<Rightarrow> bytearray \<Rightarrow> bytearray" where
  "example_spki_value oid params bits = tlv 0x30 (tlv 6 oid @ params) @ tlv 3 bits"

definition example_spki :: "bytearray \<Rightarrow> bytearray \<Rightarrow> bytearray \<Rightarrow> bytearray" where
  "example_spki oid params bits = tlv 0x30 (example_spki_value oid params bits)"

text \<open>The RSA key with modulus 35 and exponent 3, inside its BIT STRING.\<close>

definition example_rsa_bits :: bytearray where
  "example_rsa_bits = 0 # tlv 0x30 ([2, 1, 35] @ [2, 1, 3])"

text \<open>An uncompressed point with 32-byte coordinates, inside its BIT STRING.\<close>

definition example_ec_bits :: bytearray where
  "example_ec_bits = [0, 4] @ replicate 32 1 @ replicate 32 2"

definition oid_rsa :: bytearray where
  "oid_rsa = [42, 134, 72, 134, 247, 13, 1, 1, 1]"

definition oid_rsa_pss :: bytearray where
  "oid_rsa_pss = [42, 134, 72, 134, 247, 13, 1, 1, 10]"

definition oid_ecdsa :: bytearray where
  "oid_ecdsa = [42, 134, 72, 206, 61, 2, 1]"

definition oid_p256 :: bytearray where
  "oid_p256 = [42, 134, 72, 206, 61, 3, 1, 7]"

definition oid_p384 :: bytearray where
  "oid_p384 = [43, 129, 4, 0, 34]"

definition oid_p521 :: bytearray where
  "oid_p521 = [43, 129, 4, 0, 35]"

text \<open>1.3.132.0.10, the curve secp256k1: a curve OID that the parser does not list.\<close>

definition oid_secp256k1 :: bytearray where
  "oid_secp256k1 = [43, 129, 4, 0, 10]"

text \<open>
  The nodes of an ECDSA key: the value of the AlgorithmIdentifier for a curve OID, an
  uncompressed point whose coordinates have \<open>n\<close> bytes each inside its BIT STRING, and
  the value of the subjectPublicKeyInfo made of the two.
\<close>

definition ec_algId :: "bytearray \<Rightarrow> bytearray" where
  "ec_algId curveOid = tlv 6 oid_ecdsa @ tlv 6 curveOid"

definition ec_point :: "nat \<Rightarrow> bytearray" where
  "ec_point n = [0, 4] @ replicate n 1 @ replicate n 2"

definition ec_spki :: "bytearray \<Rightarrow> nat \<Rightarrow> bytearray" where
  "ec_spki curveOid n = tlv 0x30 (ec_algId curveOid) @ tlv 3 (ec_point n)"

text \<open>
  The nodes of an RSA-PSS key with the given encoded parameters, and two certificates
  with such a key: one whose parameters are an empty SEQUENCE, one whose parameters are
  cut off after the header of a SEQUENCE that announces five bytes.
\<close>

definition pss_algId :: "bytearray \<Rightarrow> bytearray" where
  "pss_algId params = tlv 6 oid_rsa_pss @ params"

definition pss_spki :: "bytearray \<Rightarrow> bytearray" where
  "pss_spki params = tlv 0x30 (pss_algId params) @ tlv 3 example_rsa_bits"

definition pss_certificate :: bytearray where
  "pss_certificate = example_certificate True (tlv 0x30 (pss_spki [0x30, 0]))"

definition pss_truncated_certificate :: bytearray where
  "pss_truncated_certificate = example_certificate True (tlv 0x30 (pss_spki [0x30, 5]))"

text \<open>
  An RSA certificate with the version and NULL parameters; the same without the
  version; the same with the version and parameters that are not NULL; an ECDSA certificate on P-256 whose BIT STRING says that one bit is
  unused.
\<close>

definition rsa_certificate :: bytearray where
  "rsa_certificate = example_certificate True (example_spki oid_rsa [5, 0] example_rsa_bits)"

definition rsa_v1_certificate :: bytearray where
  "rsa_v1_certificate = example_certificate False (example_spki oid_rsa [5, 0] example_rsa_bits)"

definition rsa_nonnull_certificate :: bytearray where
  "rsa_nonnull_certificate =
    example_certificate True (example_spki oid_rsa [5, 1, 0] example_rsa_bits)"

definition ec_unused_bits :: bytearray where
  "ec_unused_bits = [1, 4] @ replicate 32 1 @ replicate 32 2"

definition ec_unused_bits_certificate :: bytearray where
  "ec_unused_bits_certificate =
    example_certificate True (example_spki oid_ecdsa (tlv 6 oid_p256) ec_unused_bits)"

section \<open>Properties\<close>

subsection \<open>What the two key readers leave behind\<close>

lemma rsaPubKeyParsing_failure:
  "fst (rsaPubKeyParsing c spki self) = Inl e \<Longrightarrow> snd (rsaPubKeyParsing c spki self) = self"
  by (auto simp: rsaPubKeyParsing_def Let_def split: sum.splits if_splits)

lemma ecdsaPubKeyParsing_failure:
  "fst (ecdsaPubKeyParsing c spki cv self) = Inl e \<Longrightarrow>
   snd (ecdsaPubKeyParsing c spki cv self) = self"
  by (auto simp: ecdsaPubKeyParsing_def Let_def split: sum.splits if_splits)

lemma rsaPubKeyParsing_fields:
  "bytes (snd (rsaPubKeyParsing c spki self)) = bytes self \<and>
   subject (snd (rsaPubKeyParsing c spki self)) = subject self \<and>
   certAlg (snd (rsaPubKeyParsing c spki self)) = certAlg self"
  by (auto simp: rsaPubKeyParsing_def Let_def split: sum.splits if_splits)

lemma ecdsaPubKeyParsing_fields:
  "bytes (snd (ecdsaPubKeyParsing c spki cv self)) = bytes self \<and>
   subject (snd (ecdsaPubKeyParsing c spki cv self)) = subject self \<and>
   certAlg (snd (ecdsaPubKeyParsing c spki cv self)) = certAlg self"
  by (auto simp: ecdsaPubKeyParsing_def Let_def split: sum.splits if_splits)

lemma parseBinary_algorithm_located:
  assumes "getChild c spki 0 = Inr algId"
    and "getChildCount c algId = Inr n"
    and "getChild c algId 0 = Inr alg"
  shows "parseBinary_algorithm c spki self =
    (if nodeValue c alg = [42, 134, 72, 134, 247, 13, 1, 1, 1] then
       (if n \<noteq> 2
        then (Inl (SyntaxError ''Missing parameters in AlgorithmIdentifier''),
              self\<lparr>certAlg := Some ''rsa''\<rparr>)
        else (case getChild c algId 1 of
                Inl e \<Rightarrow> (Inl e, self\<lparr>certAlg := Some ''rsa''\<rparr>)
              | Inr params \<Rightarrow>
                  if nodeValue c params \<noteq> []
                  then (Inl (SyntaxError ''Unexpected non-NULL parameters in AlgorithmIdentifier''),
                        self\<lparr>certAlg := Some ''rsa''\<rparr>)
                  else rsaPubKeyParsing c spki (self\<lparr>certAlg := Some ''rsa''\<rparr>)))
     else if nodeValue c alg = [42, 134, 72, 134, 247, 13, 1, 1, 10] then
       rsaPubKeyParsing c spki (self\<lparr>certAlg := Some ''rsa-pss''\<rparr>)
     else if nodeValue c alg = [42, 134, 72, 206, 61, 2, 1] then
       (if n \<noteq> 2
        then (Inl (SyntaxError ''Missing parameters in AlgorithmIdentifier''),
              self\<lparr>certAlg := Some ''ecdsa''\<rparr>)
        else (case getChild c algId 1 of
                Inl e \<Rightarrow> (Inl e, self\<lparr>certAlg := Some ''ecdsa''\<rparr>)
              | Inr curveId \<Rightarrow>
                  if nodeValue c curveId = [42, 134, 72, 206, 61, 3, 1, 7]
                    then ecdsaPubKeyParsing c spki NIST256p (self\<lparr>certAlg := Some ''ecdsa''\<rparr>)
                  else if nodeValue c curveId = [43, 129, 4, 0, 34]
                    then ecdsaPubKeyParsing c spki NIST384p (self\<lparr>certAlg := Some ''ecdsa''\<rparr>)
                  else if nodeValue c curveId = [43, 129, 4, 0, 35]
                    then ecdsaPubKeyParsing c spki NIST521p (self\<lparr>certAlg := Some ''ecdsa''\<rparr>)
                  else (Inl (SyntaxError ''Unknown elliptic curve''),
                        self\<lparr>certAlg := Some ''ecdsa''\<rparr>)))
     else (Inl (SyntaxError ''Unrecognized AlgorithmIdentifier''), self))"
  using assms by (simp add: parseBinary_algorithm_def Let_def split: sum.splits)

lemma parseBinary_algorithm_fields:
  "bytes (snd (parseBinary_algorithm c spki self)) = bytes self \<and>
   subject (snd (parseBinary_algorithm c spki self)) = subject self"
proof (cases "getChild c spki 0")
  case (Inl e)
  then show ?thesis by (simp add: parseBinary_algorithm_def)
next
  case a: (Inr algId)
  show ?thesis
  proof (cases "getChildCount c algId")
    case (Inl e)
    with a show ?thesis by (simp add: parseBinary_algorithm_def)
  next
    case n: (Inr n)
    show ?thesis
    proof (cases "getChild c algId 0")
      case (Inl e)
      with a n show ?thesis by (simp add: parseBinary_algorithm_def)
    next
      case (Inr alg)
      show ?thesis
        unfolding parseBinary_algorithm_located [OF a n Inr]
        by (simp add: rsaPubKeyParsing_fields ecdsaPubKeyParsing_fields split: sum.splits)
    qed
  qed
qed

lemma parseBinary_algorithm_failure:
  assumes "fst (parseBinary_algorithm c spki self) = Inl e"
  shows "publicKey (snd (parseBinary_algorithm c spki self)) = publicKey self \<and>
    (certAlg (snd (parseBinary_algorithm c spki self)) = certAlg self \<or>
     certAlg (snd (parseBinary_algorithm c spki self)) = Some ''rsa'' \<or>
     certAlg (snd (parseBinary_algorithm c spki self)) = Some ''rsa-pss'' \<or>
     certAlg (snd (parseBinary_algorithm c spki self)) = Some ''ecdsa'')"
proof (cases "getChild c spki 0")
  case (Inl e)
  then show ?thesis by (simp add: parseBinary_algorithm_def)
next
  case a: (Inr algId)
  show ?thesis
  proof (cases "getChildCount c algId")
    case (Inl e)
    with a show ?thesis by (simp add: parseBinary_algorithm_def)
  next
    case n: (Inr n)
    show ?thesis
    proof (cases "getChild c algId 0")
      case (Inl e)
      with a n show ?thesis by (simp add: parseBinary_algorithm_def)
    next
      case (Inr alg)
      have rsa: "publicKey (snd (rsaPubKeyParsing c spki st)) = publicKey st"
        if "fst (rsaPubKeyParsing c spki st) = Inl e" for st
        using rsaPubKeyParsing_failure [OF that] by simp
      have ec: "publicKey (snd (ecdsaPubKeyParsing c spki cv st)) = publicKey st"
        if "fst (ecdsaPubKeyParsing c spki cv st) = Inl e" for st cv
        using ecdsaPubKeyParsing_failure [OF that] by simp
      from assms show ?thesis
        unfolding parseBinary_algorithm_located [OF a n Inr]
        by (auto simp: rsaPubKeyParsing_fields ecdsaPubKeyParsing_fields rsa ec
              split: sum.splits if_splits)
    qed
  qed
qed

lemma parseBinary_bytes: "bytes (snd (parseBinary c self input)) = input"
  by (simp add: parseBinary_def Let_def parseBinary_algorithm_fields split: sum.splits)

text \<open>
  \<^verbatim>\<open>parse\<close> touches the object only through \<^verbatim>\<open>parseBinary\<close>: when \<^verbatim>\<open>dePem\<close> raises,
  the object is as it was.
\<close>

lemma parse_dePem_failure:
  "dePem s ''CERTIFICATE'' = Inl e \<Longrightarrow> parse dePem c self s = (Inl e, self)"
  by (simp add: parse_def)

lemma parse_dePem_success:
  "dePem s ''CERTIFICATE'' = Inr input \<Longrightarrow> parse dePem c self s = parseBinary c self input"
  by (simp add: parse_def)

subsection \<open>The example certificates, parsed\<close>

text \<open>The parser run on the three example certificates, with the reference helpers.\<close>

lemma rsa_certificate_parse:
  "parseBinary der_collaborators X509_init rsa_certificate =
    (Inr (), \<lparr>bytes = rsa_certificate, publicKey = Some (RSAKey 35 3),
              subject = Some example_subject, certAlg = Some ''rsa''\<rparr>)"
  by code_simp

lemma rsa_nonnull_certificate_parse:
  "parseBinary der_collaborators X509_init rsa_nonnull_certificate =
    (Inl (SyntaxError ''Unexpected non-NULL parameters in AlgorithmIdentifier''),
     \<lparr>bytes = rsa_nonnull_certificate, publicKey = None,
      subject = Some example_subject, certAlg = Some ''rsa''\<rparr>)"
  by code_simp

lemma ec_unused_bits_certificate_parse:
  "parseBinary der_collaborators X509_init ec_unused_bits_certificate =
    (Inl (SyntaxError ''Unexpected public key encoding''),
     \<lparr>bytes = ec_unused_bits_certificate, publicKey = None,
      subject = Some example_subject, certAlg = Some ''ecdsa''\<rparr>)"
  by code_simp

lemma nodeValue_der [simp]: "nodeValue der_collaborators v = v"
  by (simp add: der_collaborators_def)

subsection \<open>Which children are read\<close>

text \<open>
  C2. When the value of tbsCertificate starts with the byte 0xA0 (the version is there),
  \<^verbatim>\<open>parseBinary\<close> takes the subject from child 5 and the subjectPublicKeyInfo from child 6;
  when it starts with any other byte, from child 4 and child 5. The subject is the
  child's whole encoding (\<^verbatim>\<open>getChildBytes\<close>), and everything after is decided by the
  subjectPublicKeyInfo node found there.
\<close>

theorem parseBinary_version_offset:
  assumes "ASN1Parser c input = Inr p"
    and "getChild c p 0 = Inr tbs"
    and "nodeValue c tbs = b # rest"
  shows "parseBinary c self input =
    (case getChildBytes c tbs (if b = 0xA0 then 5 else 4) of
       Inl e \<Rightarrow> (Inl e, self\<lparr>bytes := input\<rparr>)
     | Inr s \<Rightarrow>
         (case getChild c tbs (if b = 0xA0 then 6 else 5) of
            Inl e \<Rightarrow> (Inl e, self\<lparr>bytes := input, subject := Some s\<rparr>)
          | Inr spki \<Rightarrow>
              parseBinary_algorithm c spki (self\<lparr>bytes := input, subject := Some s\<rparr>)))"
  using assms by (simp add: parseBinary_def index0_def Let_def split: sum.splits)

text \<open>
  The example RSA certificate with the version has its subject at child 5 and its
  subjectPublicKeyInfo at child 6 of the tbsCertificate; the one without the version,
  whose tbsCertificate starts with the tag 0x02 of the serial number, at child 4 and
  child 5.
\<close>

theorem parseBinary_version_offset_witness:
  "ASN1Parser der_collaborators rsa_certificate = Inr (drop 2 rsa_certificate) \<and>
   getChild der_collaborators (drop 2 rsa_certificate) 0
     = Inr (take 46 (drop 4 rsa_certificate)) \<and>
   nodeValue der_collaborators (take 46 (drop 4 rsa_certificate))
     = 0xA0 # take 45 (drop 5 rsa_certificate) \<and>
   getChildBytes der_collaborators (take 46 (drop 4 rsa_certificate)) 5
     = Inr example_subject \<and>
   getChild der_collaborators (take 46 (drop 4 rsa_certificate)) 6
     = Inr (example_spki_value oid_rsa [5, 0] example_rsa_bits) \<and>
   parseBinary der_collaborators X509_init rsa_certificate =
     parseBinary_algorithm der_collaborators
       (example_spki_value oid_rsa [5, 0] example_rsa_bits)
       (X509_init\<lparr>bytes := rsa_certificate, subject := Some example_subject\<rparr>) \<and>
   ASN1Parser der_collaborators rsa_v1_certificate = Inr (drop 2 rsa_v1_certificate) \<and>
   getChild der_collaborators (drop 2 rsa_v1_certificate) 0
     = Inr (take 41 (drop 4 rsa_v1_certificate)) \<and>
   nodeValue der_collaborators (take 41 (drop 4 rsa_v1_certificate))
     = 2 # take 40 (drop 5 rsa_v1_certificate) \<and>
   getChildBytes der_collaborators (take 41 (drop 4 rsa_v1_certificate)) 4
     = Inr example_subject \<and>
   getChild der_collaborators (take 41 (drop 4 rsa_v1_certificate)) 5
     = Inr (example_spki_value oid_rsa [5, 0] example_rsa_bits) \<and>
   parseBinary der_collaborators X509_init rsa_v1_certificate =
     parseBinary_algorithm der_collaborators
       (example_spki_value oid_rsa [5, 0] example_rsa_bits)
       (X509_init\<lparr>bytes := rsa_v1_certificate, subject := Some example_subject\<rparr>)"
proof -
  have h1: "ASN1Parser der_collaborators rsa_certificate = Inr (drop 2 rsa_certificate)"
    by code_simp
  have h2: "getChild der_collaborators (drop 2 rsa_certificate) 0
      = Inr (take 46 (drop 4 rsa_certificate))"
    by code_simp
  have h3: "nodeValue der_collaborators (take 46 (drop 4 rsa_certificate))
      = 0xA0 # take 45 (drop 5 rsa_certificate)"
    by code_simp
  have s: "getChildBytes der_collaborators (take 46 (drop 4 rsa_certificate)) 5
      = Inr example_subject"
    by code_simp
  have k: "getChild der_collaborators (take 46 (drop 4 rsa_certificate)) 6
      = Inr (example_spki_value oid_rsa [5, 0] example_rsa_bits)"
    by code_simp
  have with_version: "parseBinary der_collaborators X509_init rsa_certificate =
     parseBinary_algorithm der_collaborators
       (example_spki_value oid_rsa [5, 0] example_rsa_bits)
       (X509_init\<lparr>bytes := rsa_certificate, subject := Some example_subject\<rparr>)"
    using s k parseBinary_version_offset [OF h1 h2 h3, of X509_init] by simp
  have g1: "ASN1Parser der_collaborators rsa_v1_certificate = Inr (drop 2 rsa_v1_certificate)"
    by code_simp
  have g2: "getChild der_collaborators (drop 2 rsa_v1_certificate) 0
      = Inr (take 41 (drop 4 rsa_v1_certificate))"
    by code_simp
  have g3: "nodeValue der_collaborators (take 41 (drop 4 rsa_v1_certificate))
      = 2 # take 40 (drop 5 rsa_v1_certificate)"
    by code_simp
  have s': "getChildBytes der_collaborators (take 41 (drop 4 rsa_v1_certificate)) 4
      = Inr example_subject"
    by code_simp
  have k': "getChild der_collaborators (take 41 (drop 4 rsa_v1_certificate)) 5
      = Inr (example_spki_value oid_rsa [5, 0] example_rsa_bits)"
    by code_simp
  have without_version: "parseBinary der_collaborators X509_init rsa_v1_certificate =
     parseBinary_algorithm der_collaborators
       (example_spki_value oid_rsa [5, 0] example_rsa_bits)
       (X509_init\<lparr>bytes := rsa_v1_certificate, subject := Some example_subject\<rparr>)"
    using s' k' parseBinary_version_offset [OF g1 g2 g3, of X509_init] by simp
  from h1 h2 h3 s k with_version g1 g2 g3 s' k' without_version
  show ?thesis by blast
qed

subsection \<open>The algorithm and its parameters\<close>

text \<open>
  C3. For the OID 1.2.840.113549.1.1.1 (RSA with PKCS#1), the parse goes on to the key
  exactly when the AlgorithmIdentifier has two children and the value of child 1 is
  empty. With another number of children it raises
  \<^verbatim>\<open>SyntaxError("Missing parameters in AlgorithmIdentifier")\<close>, with a non-empty value
  \<^verbatim>\<open>SyntaxError("Unexpected non-NULL parameters in AlgorithmIdentifier")\<close>: the two
  errors the spec calls InvalidAlgorithmParameters.
\<close>

theorem rsa_parameters_checked:
  assumes "getChild c spki 0 = Inr algId"
    and "getChildCount c algId = Inr n"
    and "getChild c algId 0 = Inr alg"
    and "nodeValue c alg = [42, 134, 72, 134, 247, 13, 1, 1, 1]"
  shows "parseBinary_algorithm c spki self =
    (if n = 2 \<and> (\<exists>params. getChild c algId 1 = Inr params \<and> nodeValue c params = [])
     then rsaPubKeyParsing c spki (self\<lparr>certAlg := Some ''rsa''\<rparr>)
     else if n \<noteq> 2
     then (Inl (SyntaxError ''Missing parameters in AlgorithmIdentifier''),
           self\<lparr>certAlg := Some ''rsa''\<rparr>)
     else (case getChild c algId 1 of
             Inl e \<Rightarrow> (Inl e, self\<lparr>certAlg := Some ''rsa''\<rparr>)
           | Inr params \<Rightarrow>
               (Inl (SyntaxError ''Unexpected non-NULL parameters in AlgorithmIdentifier''),
                self\<lparr>certAlg := Some ''rsa''\<rparr>)))"
  using assms by (auto simp: parseBinary_algorithm_located split: sum.splits)

text \<open>An AlgorithmIdentifier with the RSA OID and NULL parameters goes on to the key.\<close>

theorem rsa_parameters_checked_witness:
  "getChild der_collaborators (example_spki_value oid_rsa [5, 0] example_rsa_bits) 0
     = Inr (tlv 6 oid_rsa @ [5, 0]) \<and>
   getChildCount der_collaborators (tlv 6 oid_rsa @ [5, 0]) = Inr 2 \<and>
   getChild der_collaborators (tlv 6 oid_rsa @ [5, 0]) 0 = Inr oid_rsa \<and>
   nodeValue der_collaborators oid_rsa = [42, 134, 72, 134, 247, 13, 1, 1, 1] \<and>
   getChild der_collaborators (tlv 6 oid_rsa @ [5, 0]) 1 = Inr [] \<and>
   parseBinary_algorithm der_collaborators
       (example_spki_value oid_rsa [5, 0] example_rsa_bits) X509_init =
     rsaPubKeyParsing der_collaborators
       (example_spki_value oid_rsa [5, 0] example_rsa_bits)
       (X509_init\<lparr>certAlg := Some ''rsa''\<rparr>)"
proof -
  have h1: "getChild der_collaborators (example_spki_value oid_rsa [5, 0] example_rsa_bits) 0
      = Inr (tlv 6 oid_rsa @ [5, 0])"
    by code_simp
  have h2: "getChildCount der_collaborators (tlv 6 oid_rsa @ [5, 0]) = Inr 2"
    by code_simp
  have h3: "getChild der_collaborators (tlv 6 oid_rsa @ [5, 0]) 0 = Inr oid_rsa"
    by code_simp
  have h4: "nodeValue der_collaborators oid_rsa = [42, 134, 72, 134, 247, 13, 1, 1, 1]"
    by code_simp
  have h5: "getChild der_collaborators (tlv 6 oid_rsa @ [5, 0]) 1 = Inr []"
    by code_simp
  show ?thesis
    using h1 h2 h3 h4 h5 rsa_parameters_checked [OF h1 h2 h3 h4, of X509_init]
    by simp
qed

text \<open>
  C4. For an ECDSA certificate the curve OID 1.2.840.10045.3.1.7 sends the key to
  \<^verbatim>\<open>_ecdsaPubKeyParsing\<close> with the curve NIST256p, 1.3.132.0.34 with NIST384p,
  1.3.132.0.35 with NIST521p, and any other curve OID raises
  \<^verbatim>\<open>SyntaxError("Unknown elliptic curve")\<close>. With one of the three OIDs, a BIT STRING
  that starts with 0x00 0x04 and a point that \<^verbatim>\<open>VerifyingKey.from_string\<close> accepts on the
  curve of that OID, the parse succeeds and stores the key built on that curve. And
  whenever the parse of an ECDSA key succeeds, the key stored is the one built on the
  curve of the OID found: P-256, P-384 or P-521, never another.
\<close>

theorem ecdsa_curve_table:
  assumes "getChild c spki 0 = Inr algId"
    and "getChildCount c algId = Inr 2"
    and "getChild c algId 0 = Inr alg"
    and "nodeValue c alg = [42, 134, 72, 206, 61, 2, 1]"
    and "getChild c algId 1 = Inr curveId"
  shows "parseBinary_algorithm c spki self =
    (if nodeValue c curveId = [42, 134, 72, 206, 61, 3, 1, 7]
       then ecdsaPubKeyParsing c spki NIST256p (self\<lparr>certAlg := Some ''ecdsa''\<rparr>)
     else if nodeValue c curveId = [43, 129, 4, 0, 34]
       then ecdsaPubKeyParsing c spki NIST384p (self\<lparr>certAlg := Some ''ecdsa''\<rparr>)
     else if nodeValue c curveId = [43, 129, 4, 0, 35]
       then ecdsaPubKeyParsing c spki NIST521p (self\<lparr>certAlg := Some ''ecdsa''\<rparr>)
     else (Inl (SyntaxError ''Unknown elliptic curve''), self\<lparr>certAlg := Some ''ecdsa''\<rparr>))
    \<and> (\<forall>bits k. getChild c spki 1 = Inr bits \<and> take 2 (nodeValue c bits) = [0, 4] \<longrightarrow>
       (nodeValue c curveId = [42, 134, 72, 206, 61, 3, 1, 7] \<and>
        from_string c (drop 2 (nodeValue c bits)) NIST256p = Inr k \<longrightarrow>
          parseBinary_algorithm c spki self = (Inr (), self\<lparr>certAlg := Some ''ecdsa'', publicKey := Some k\<rparr>))
     \<and> (nodeValue c curveId = [43, 129, 4, 0, 34] \<and>
        from_string c (drop 2 (nodeValue c bits)) NIST384p = Inr k \<longrightarrow>
          parseBinary_algorithm c spki self = (Inr (), self\<lparr>certAlg := Some ''ecdsa'', publicKey := Some k\<rparr>))
     \<and> (nodeValue c curveId = [43, 129, 4, 0, 35] \<and>
        from_string c (drop 2 (nodeValue c bits)) NIST521p = Inr k \<longrightarrow>
          parseBinary_algorithm c spki self = (Inr (), self\<lparr>certAlg := Some ''ecdsa'', publicKey := Some k\<rparr>)))
    \<and> (fst (parseBinary_algorithm c spki self) = Inr () \<longrightarrow>
       (\<exists>bits k. getChild c spki 1 = Inr bits \<and> take 2 (nodeValue c bits) = [0, 4] \<and>
          snd (parseBinary_algorithm c spki self) = self\<lparr>certAlg := Some ''ecdsa'', publicKey := Some k\<rparr> \<and>
          (nodeValue c curveId = [42, 134, 72, 206, 61, 3, 1, 7] \<and>
             from_string c (drop 2 (nodeValue c bits)) NIST256p = Inr k
           \<or> nodeValue c curveId = [43, 129, 4, 0, 34] \<and>
             from_string c (drop 2 (nodeValue c bits)) NIST384p = Inr k
           \<or> nodeValue c curveId = [43, 129, 4, 0, 35] \<and>
             from_string c (drop 2 (nodeValue c bits)) NIST521p = Inr k)))"
proof (intro conjI)
  show dispatch: "parseBinary_algorithm c spki self =
    (if nodeValue c curveId = [42, 134, 72, 206, 61, 3, 1, 7]
       then ecdsaPubKeyParsing c spki NIST256p (self\<lparr>certAlg := Some ''ecdsa''\<rparr>)
     else if nodeValue c curveId = [43, 129, 4, 0, 34]
       then ecdsaPubKeyParsing c spki NIST384p (self\<lparr>certAlg := Some ''ecdsa''\<rparr>)
     else if nodeValue c curveId = [43, 129, 4, 0, 35]
       then ecdsaPubKeyParsing c spki NIST521p (self\<lparr>certAlg := Some ''ecdsa''\<rparr>)
     else (Inl (SyntaxError ''Unknown elliptic curve''), self\<lparr>certAlg := Some ''ecdsa''\<rparr>))"
    using assms by (simp add: parseBinary_algorithm_located)
  show "\<forall>bits k. getChild c spki 1 = Inr bits \<and> take 2 (nodeValue c bits) = [0, 4] \<longrightarrow>
       (nodeValue c curveId = [42, 134, 72, 206, 61, 3, 1, 7] \<and>
        from_string c (drop 2 (nodeValue c bits)) NIST256p = Inr k \<longrightarrow>
          parseBinary_algorithm c spki self = (Inr (), self\<lparr>certAlg := Some ''ecdsa'', publicKey := Some k\<rparr>))
     \<and> (nodeValue c curveId = [43, 129, 4, 0, 34] \<and>
        from_string c (drop 2 (nodeValue c bits)) NIST384p = Inr k \<longrightarrow>
          parseBinary_algorithm c spki self = (Inr (), self\<lparr>certAlg := Some ''ecdsa'', publicKey := Some k\<rparr>))
     \<and> (nodeValue c curveId = [43, 129, 4, 0, 35] \<and>
        from_string c (drop 2 (nodeValue c bits)) NIST521p = Inr k \<longrightarrow>
          parseBinary_algorithm c spki self = (Inr (), self\<lparr>certAlg := Some ''ecdsa'', publicKey := Some k\<rparr>))"
    unfolding dispatch by (simp add: ecdsaPubKeyParsing_def Let_def)
  show "fst (parseBinary_algorithm c spki self) = Inr () \<longrightarrow>
       (\<exists>bits k. getChild c spki 1 = Inr bits \<and> take 2 (nodeValue c bits) = [0, 4] \<and>
          snd (parseBinary_algorithm c spki self) = self\<lparr>certAlg := Some ''ecdsa'', publicKey := Some k\<rparr> \<and>
          (nodeValue c curveId = [42, 134, 72, 206, 61, 3, 1, 7] \<and>
             from_string c (drop 2 (nodeValue c bits)) NIST256p = Inr k
           \<or> nodeValue c curveId = [43, 129, 4, 0, 34] \<and>
             from_string c (drop 2 (nodeValue c bits)) NIST384p = Inr k
           \<or> nodeValue c curveId = [43, 129, 4, 0, 35] \<and>
             from_string c (drop 2 (nodeValue c bits)) NIST521p = Inr k))"
    unfolding dispatch
    by (auto simp: ecdsaPubKeyParsing_def Let_def split: sum.splits if_splits)
qed

text \<open>
  The three curves, each with an uncompressed point of the length of its field (32, 48
  and 66 bytes for each coordinate), give a key on P-256, on P-384 and on P-521; the OID
  of secp256k1 is an unknown curve.
\<close>

theorem ecdsa_curve_table_witness:
  "getChild der_collaborators (ec_spki oid_p256 32) 0 = Inr (ec_algId oid_p256) \<and>
   getChildCount der_collaborators (ec_algId oid_p256) = Inr 2 \<and>
   getChild der_collaborators (ec_algId oid_p256) 0 = Inr oid_ecdsa \<and>
   nodeValue der_collaborators oid_ecdsa = [42, 134, 72, 206, 61, 2, 1] \<and>
   getChild der_collaborators (ec_algId oid_p256) 1 = Inr oid_p256 \<and>
   getChild der_collaborators (ec_spki oid_p256 32) 1 = Inr (ec_point 32) \<and>
   take 2 (nodeValue der_collaborators (ec_point 32)) = [0, 4] \<and>
   nodeValue der_collaborators oid_p256 = [42, 134, 72, 206, 61, 3, 1, 7] \<and>
   from_string der_collaborators (drop 2 (nodeValue der_collaborators (ec_point 32))) NIST256p
      = Inr (VerifyingKey NIST256p (replicate 32 1) (replicate 32 2)) \<and>
   parseBinary_algorithm der_collaborators (ec_spki oid_p256 32) X509_init =
     (Inr (), X509_init\<lparr>certAlg := Some ''ecdsa'',
        publicKey := Some (VerifyingKey NIST256p (replicate 32 1) (replicate 32 2))\<rparr>) \<and>
   getChild der_collaborators (ec_spki oid_p384 48) 0 = Inr (ec_algId oid_p384) \<and>
   getChildCount der_collaborators (ec_algId oid_p384) = Inr 2 \<and>
   getChild der_collaborators (ec_algId oid_p384) 0 = Inr oid_ecdsa \<and>
   nodeValue der_collaborators oid_ecdsa = [42, 134, 72, 206, 61, 2, 1] \<and>
   getChild der_collaborators (ec_algId oid_p384) 1 = Inr oid_p384 \<and>
   getChild der_collaborators (ec_spki oid_p384 48) 1 = Inr (ec_point 48) \<and>
   take 2 (nodeValue der_collaborators (ec_point 48)) = [0, 4] \<and>
   nodeValue der_collaborators oid_p384 = [43, 129, 4, 0, 34] \<and>
   from_string der_collaborators (drop 2 (nodeValue der_collaborators (ec_point 48))) NIST384p
      = Inr (VerifyingKey NIST384p (replicate 48 1) (replicate 48 2)) \<and>
   parseBinary_algorithm der_collaborators (ec_spki oid_p384 48) X509_init =
     (Inr (), X509_init\<lparr>certAlg := Some ''ecdsa'',
        publicKey := Some (VerifyingKey NIST384p (replicate 48 1) (replicate 48 2))\<rparr>) \<and>
   getChild der_collaborators (ec_spki oid_p521 66) 0 = Inr (ec_algId oid_p521) \<and>
   getChildCount der_collaborators (ec_algId oid_p521) = Inr 2 \<and>
   getChild der_collaborators (ec_algId oid_p521) 0 = Inr oid_ecdsa \<and>
   nodeValue der_collaborators oid_ecdsa = [42, 134, 72, 206, 61, 2, 1] \<and>
   getChild der_collaborators (ec_algId oid_p521) 1 = Inr oid_p521 \<and>
   getChild der_collaborators (ec_spki oid_p521 66) 1 = Inr (ec_point 66) \<and>
   take 2 (nodeValue der_collaborators (ec_point 66)) = [0, 4] \<and>
   nodeValue der_collaborators oid_p521 = [43, 129, 4, 0, 35] \<and>
   from_string der_collaborators (drop 2 (nodeValue der_collaborators (ec_point 66))) NIST521p
      = Inr (VerifyingKey NIST521p (replicate 66 1) (replicate 66 2)) \<and>
   parseBinary_algorithm der_collaborators (ec_spki oid_p521 66) X509_init =
     (Inr (), X509_init\<lparr>certAlg := Some ''ecdsa'',
        publicKey := Some (VerifyingKey NIST521p (replicate 66 1) (replicate 66 2))\<rparr>) \<and>
   getChild der_collaborators (ec_spki oid_secp256k1 32) 0 = Inr (ec_algId oid_secp256k1) \<and>
   getChildCount der_collaborators (ec_algId oid_secp256k1) = Inr 2 \<and>
   getChild der_collaborators (ec_algId oid_secp256k1) 0 = Inr oid_ecdsa \<and>
   nodeValue der_collaborators oid_ecdsa = [42, 134, 72, 206, 61, 2, 1] \<and>
   getChild der_collaborators (ec_algId oid_secp256k1) 1 = Inr oid_secp256k1 \<and>
   nodeValue der_collaborators oid_secp256k1 \<noteq> [42, 134, 72, 206, 61, 3, 1, 7] \<and>
   nodeValue der_collaborators oid_secp256k1 \<noteq> [43, 129, 4, 0, 34] \<and>
   nodeValue der_collaborators oid_secp256k1 \<noteq> [43, 129, 4, 0, 35] \<and>
   parseBinary_algorithm der_collaborators (ec_spki oid_secp256k1 32) X509_init =
     (Inl (SyntaxError ''Unknown elliptic curve''),
      X509_init\<lparr>certAlg := Some ''ecdsa''\<rparr>)"
proof -
  have p256_1: "getChild der_collaborators (ec_spki oid_p256 32) 0 = Inr (ec_algId oid_p256)"
    by code_simp
  have p256_2: "getChildCount der_collaborators (ec_algId oid_p256) = Inr 2"
    by code_simp
  have p256_3: "getChild der_collaborators (ec_algId oid_p256) 0 = Inr oid_ecdsa"
    by code_simp
  have p256_4: "nodeValue der_collaborators oid_ecdsa = [42, 134, 72, 206, 61, 2, 1]"
    by code_simp
  have p256_5: "getChild der_collaborators (ec_algId oid_p256) 1 = Inr oid_p256"
    by code_simp
  have p256_6: "getChild der_collaborators (ec_spki oid_p256 32) 1 = Inr (ec_point 32)"
    by code_simp
  have p256_7: "take 2 (nodeValue der_collaborators (ec_point 32)) = [0, 4]"
    by code_simp
  have p256_8: "nodeValue der_collaborators oid_p256 = [42, 134, 72, 206, 61, 3, 1, 7]"
    by code_simp
  have p256_9: "from_string der_collaborators (drop 2 (nodeValue der_collaborators (ec_point 32))) NIST256p
      = Inr (VerifyingKey NIST256p (replicate 32 1) (replicate 32 2))"
    by code_simp
  have p256: "parseBinary_algorithm der_collaborators (ec_spki oid_p256 32) X509_init =
     (Inr (), X509_init\<lparr>certAlg := Some ''ecdsa'',
        publicKey := Some (VerifyingKey NIST256p (replicate 32 1) (replicate 32 2))\<rparr>)"
    using ecdsa_curve_table [OF p256_1 p256_2 p256_3 p256_4 p256_5, of X509_init]
      p256_6 p256_7 p256_8 p256_9
    by blast
  have p384_1: "getChild der_collaborators (ec_spki oid_p384 48) 0 = Inr (ec_algId oid_p384)"
    by code_simp
  have p384_2: "getChildCount der_collaborators (ec_algId oid_p384) = Inr 2"
    by code_simp
  have p384_3: "getChild der_collaborators (ec_algId oid_p384) 0 = Inr oid_ecdsa"
    by code_simp
  have p384_4: "nodeValue der_collaborators oid_ecdsa = [42, 134, 72, 206, 61, 2, 1]"
    by code_simp
  have p384_5: "getChild der_collaborators (ec_algId oid_p384) 1 = Inr oid_p384"
    by code_simp
  have p384_6: "getChild der_collaborators (ec_spki oid_p384 48) 1 = Inr (ec_point 48)"
    by code_simp
  have p384_7: "take 2 (nodeValue der_collaborators (ec_point 48)) = [0, 4]"
    by code_simp
  have p384_8: "nodeValue der_collaborators oid_p384 = [43, 129, 4, 0, 34]"
    by code_simp
  have p384_9: "from_string der_collaborators (drop 2 (nodeValue der_collaborators (ec_point 48))) NIST384p
      = Inr (VerifyingKey NIST384p (replicate 48 1) (replicate 48 2))"
    by code_simp
  have p384: "parseBinary_algorithm der_collaborators (ec_spki oid_p384 48) X509_init =
     (Inr (), X509_init\<lparr>certAlg := Some ''ecdsa'',
        publicKey := Some (VerifyingKey NIST384p (replicate 48 1) (replicate 48 2))\<rparr>)"
    using ecdsa_curve_table [OF p384_1 p384_2 p384_3 p384_4 p384_5, of X509_init]
      p384_6 p384_7 p384_8 p384_9
    by blast
  have p521_1: "getChild der_collaborators (ec_spki oid_p521 66) 0 = Inr (ec_algId oid_p521)"
    by code_simp
  have p521_2: "getChildCount der_collaborators (ec_algId oid_p521) = Inr 2"
    by code_simp
  have p521_3: "getChild der_collaborators (ec_algId oid_p521) 0 = Inr oid_ecdsa"
    by code_simp
  have p521_4: "nodeValue der_collaborators oid_ecdsa = [42, 134, 72, 206, 61, 2, 1]"
    by code_simp
  have p521_5: "getChild der_collaborators (ec_algId oid_p521) 1 = Inr oid_p521"
    by code_simp
  have p521_6: "getChild der_collaborators (ec_spki oid_p521 66) 1 = Inr (ec_point 66)"
    by code_simp
  have p521_7: "take 2 (nodeValue der_collaborators (ec_point 66)) = [0, 4]"
    by code_simp
  have p521_8: "nodeValue der_collaborators oid_p521 = [43, 129, 4, 0, 35]"
    by code_simp
  have p521_9: "from_string der_collaborators (drop 2 (nodeValue der_collaborators (ec_point 66))) NIST521p
      = Inr (VerifyingKey NIST521p (replicate 66 1) (replicate 66 2))"
    by code_simp
  have p521: "parseBinary_algorithm der_collaborators (ec_spki oid_p521 66) X509_init =
     (Inr (), X509_init\<lparr>certAlg := Some ''ecdsa'',
        publicKey := Some (VerifyingKey NIST521p (replicate 66 1) (replicate 66 2))\<rparr>)"
    using ecdsa_curve_table [OF p521_1 p521_2 p521_3 p521_4 p521_5, of X509_init]
      p521_6 p521_7 p521_8 p521_9
    by blast
  have other_1: "getChild der_collaborators (ec_spki oid_secp256k1 32) 0 = Inr (ec_algId oid_secp256k1)"
    by code_simp
  have other_2: "getChildCount der_collaborators (ec_algId oid_secp256k1) = Inr 2"
    by code_simp
  have other_3: "getChild der_collaborators (ec_algId oid_secp256k1) 0 = Inr oid_ecdsa"
    by code_simp
  have other_4: "nodeValue der_collaborators oid_ecdsa = [42, 134, 72, 206, 61, 2, 1]"
    by code_simp
  have other_5: "getChild der_collaborators (ec_algId oid_secp256k1) 1 = Inr oid_secp256k1"
    by code_simp
  have other_6: "nodeValue der_collaborators oid_secp256k1 \<noteq> [42, 134, 72, 206, 61, 3, 1, 7]"
    by code_simp
  have other_7: "nodeValue der_collaborators oid_secp256k1 \<noteq> [43, 129, 4, 0, 34]"
    by code_simp
  have other_8: "nodeValue der_collaborators oid_secp256k1 \<noteq> [43, 129, 4, 0, 35]"
    by code_simp
  have other: "parseBinary_algorithm der_collaborators (ec_spki oid_secp256k1 32) X509_init =
     (Inl (SyntaxError ''Unknown elliptic curve''),
      X509_init\<lparr>certAlg := Some ''ecdsa''\<rparr>)"
    using ecdsa_curve_table [OF other_1 other_2 other_3 other_4 other_5, of X509_init]
      other_6 other_7 other_8
    by simp
  from p256_1 p256_2 p256_3 p256_4 p256_5 p256_6 p256_7 p256_8 p256_9 p256 p384_1 p384_2 p384_3 p384_4 p384_5 p384_6 p384_7 p384_8 p384_9 p384 p521_1 p521_2 p521_3 p521_4 p521_5 p521_6 p521_7 p521_8 p521_9 p521 other_1 other_2 other_3 other_4 other_5 other_6 other_7 other_8 other
  show ?thesis by blast
qed

text \<open>
  C5, as amended. Before it looks at the OID, \<^verbatim>\<open>parseBinary\<close> counts the children of the
  AlgorithmIdentifier (line 84) and reads child 0, for every algorithm; an error of the
  decoder there ends the parse with the object as it was. When the decoder gives the
  count and the OID, the OID 1.2.840.113549.1.1.1 gives \<^verbatim>\<open>certAlg = "rsa"\<close>,
  1.2.840.113549.1.1.10 gives \<^verbatim>\<open>"rsa-pss"\<close>, 1.2.840.10045.2.1 gives \<^verbatim>\<open>"ecdsa"\<close>, and any
  other OID raises \<^verbatim>\<open>SyntaxError("Unrecognized AlgorithmIdentifier")\<close>. For RSA-PSS the
  outcome is then that of \<^verbatim>\<open>_rsaPubKeyParsing\<close> alone, whatever the count is and whatever
  child 1 holds.
\<close>

theorem algorithm_resolution:
  assumes "getChild c spki 0 = Inr algId"
  shows "(\<forall>e. getChildCount c algId = Inl e \<longrightarrow>
       parseBinary_algorithm c spki self = (Inl e, self))
    \<and> (\<forall>n e. getChildCount c algId = Inr n \<and> getChild c algId 0 = Inl e \<longrightarrow>
       parseBinary_algorithm c spki self = (Inl e, self))
    \<and> (\<forall>n alg. getChildCount c algId = Inr n \<and> getChild c algId 0 = Inr alg \<longrightarrow>
       (nodeValue c alg = [42, 134, 72, 134, 247, 13, 1, 1, 1] \<longrightarrow>
          certAlg (snd (parseBinary_algorithm c spki self)) = Some ''rsa'')
     \<and> (nodeValue c alg = [42, 134, 72, 134, 247, 13, 1, 1, 10] \<longrightarrow>
          parseBinary_algorithm c spki self =
            rsaPubKeyParsing c spki (self\<lparr>certAlg := Some ''rsa-pss''\<rparr>)
        \<and> certAlg (snd (parseBinary_algorithm c spki self)) = Some ''rsa-pss'')
     \<and> (nodeValue c alg = [42, 134, 72, 206, 61, 2, 1] \<longrightarrow>
          certAlg (snd (parseBinary_algorithm c spki self)) = Some ''ecdsa'')
     \<and> (nodeValue c alg \<noteq> [42, 134, 72, 134, 247, 13, 1, 1, 1] \<and>
        nodeValue c alg \<noteq> [42, 134, 72, 134, 247, 13, 1, 1, 10] \<and>
        nodeValue c alg \<noteq> [42, 134, 72, 206, 61, 2, 1] \<longrightarrow>
          parseBinary_algorithm c spki self =
            (Inl (SyntaxError ''Unrecognized AlgorithmIdentifier''), self)))"
proof (intro conjI)
  show "\<forall>e. getChildCount c algId = Inl e \<longrightarrow>
       parseBinary_algorithm c spki self = (Inl e, self)"
    using assms by (simp add: parseBinary_algorithm_def)
  show "\<forall>n e. getChildCount c algId = Inr n \<and> getChild c algId 0 = Inl e \<longrightarrow>
       parseBinary_algorithm c spki self = (Inl e, self)"
    using assms by (simp add: parseBinary_algorithm_def)
  show "\<forall>n alg. getChildCount c algId = Inr n \<and> getChild c algId 0 = Inr alg \<longrightarrow>
       (nodeValue c alg = [42, 134, 72, 134, 247, 13, 1, 1, 1] \<longrightarrow>
          certAlg (snd (parseBinary_algorithm c spki self)) = Some ''rsa'')
     \<and> (nodeValue c alg = [42, 134, 72, 134, 247, 13, 1, 1, 10] \<longrightarrow>
          parseBinary_algorithm c spki self =
            rsaPubKeyParsing c spki (self\<lparr>certAlg := Some ''rsa-pss''\<rparr>)
        \<and> certAlg (snd (parseBinary_algorithm c spki self)) = Some ''rsa-pss'')
     \<and> (nodeValue c alg = [42, 134, 72, 206, 61, 2, 1] \<longrightarrow>
          certAlg (snd (parseBinary_algorithm c spki self)) = Some ''ecdsa'')
     \<and> (nodeValue c alg \<noteq> [42, 134, 72, 134, 247, 13, 1, 1, 1] \<and>
        nodeValue c alg \<noteq> [42, 134, 72, 134, 247, 13, 1, 1, 10] \<and>
        nodeValue c alg \<noteq> [42, 134, 72, 206, 61, 2, 1] \<longrightarrow>
          parseBinary_algorithm c spki self =
            (Inl (SyntaxError ''Unrecognized AlgorithmIdentifier''), self))"
    using assms
    by (auto simp: parseBinary_algorithm_located rsaPubKeyParsing_fields
          ecdsaPubKeyParsing_fields split: sum.splits)
qed

text \<open>
  An RSA-PSS key whose parameters are an empty SEQUENCE is read by the RSA key reader
  and accepted. When the parameters are cut off, the children cannot be counted and the
  decoder's error comes out.
\<close>

theorem algorithm_resolution_witness:
  "getChild der_collaborators (pss_spki [0x30, 0]) 0 = Inr (pss_algId [0x30, 0]) \<and>
   getChildCount der_collaborators (pss_algId [0x30, 0]) = Inr 2 \<and>
   getChild der_collaborators (pss_algId [0x30, 0]) 0 = Inr oid_rsa_pss \<and>
   nodeValue der_collaborators oid_rsa_pss = [42, 134, 72, 134, 247, 13, 1, 1, 10] \<and>
   parseBinary_algorithm der_collaborators (pss_spki [0x30, 0]) X509_init =
     rsaPubKeyParsing der_collaborators (pss_spki [0x30, 0])
       (X509_init\<lparr>certAlg := Some ''rsa-pss''\<rparr>) \<and>
   parseBinary_algorithm der_collaborators (pss_spki [0x30, 0]) X509_init =
     (Inr (), X509_init\<lparr>certAlg := Some ''rsa-pss'', publicKey := Some (RSAKey 35 3)\<rparr>) \<and>
   getChild der_collaborators (pss_spki [0x30, 5]) 0 = Inr (pss_algId [0x30, 5]) \<and>
   getChildCount der_collaborators (pss_algId [0x30, 5]) = Inl decodeError \<and>
   parseBinary_algorithm der_collaborators (pss_spki [0x30, 5]) X509_init =
     (Inl decodeError, X509_init)"
proof -
  have h1: "getChild der_collaborators (pss_spki [0x30, 0]) 0 = Inr (pss_algId [0x30, 0])"
    by code_simp
  have h2: "getChildCount der_collaborators (pss_algId [0x30, 0]) = Inr 2"
    by code_simp
  have h3: "getChild der_collaborators (pss_algId [0x30, 0]) 0 = Inr oid_rsa_pss"
    by code_simp
  have h4: "nodeValue der_collaborators oid_rsa_pss = [42, 134, 72, 134, 247, 13, 1, 1, 10]"
    by code_simp
  have key: "rsaPubKeyParsing der_collaborators (pss_spki [0x30, 0])
       (X509_init\<lparr>certAlg := Some ''rsa-pss''\<rparr>) =
     (Inr (), X509_init\<lparr>certAlg := Some ''rsa-pss'', publicKey := Some (RSAKey 35 3)\<rparr>)"
    by code_simp
  have a: "parseBinary_algorithm der_collaborators (pss_spki [0x30, 0]) X509_init =
     rsaPubKeyParsing der_collaborators (pss_spki [0x30, 0])
       (X509_init\<lparr>certAlg := Some ''rsa-pss''\<rparr>)"
    using algorithm_resolution [OF h1, of X509_init] h2 h3 h4 by blast
  have g1: "getChild der_collaborators (pss_spki [0x30, 5]) 0 = Inr (pss_algId [0x30, 5])"
    by code_simp
  have g2: "getChildCount der_collaborators (pss_algId [0x30, 5]) = Inl decodeError"
    by code_simp
  have b: "parseBinary_algorithm der_collaborators (pss_spki [0x30, 5]) X509_init =
     (Inl decodeError, X509_init)"
    using algorithm_resolution [OF g1, of X509_init] g2 by blast
  from a key have a2: "parseBinary_algorithm der_collaborators (pss_spki [0x30, 0]) X509_init =
     (Inr (), X509_init\<lparr>certAlg := Some ''rsa-pss'', publicKey := Some (RSAKey 35 3)\<rparr>)"
    by simp
  from h1 h2 h3 h4 a a2 g1 g2 b show ?thesis by blast
qed

text \<open>
  C5 as the spec states it does not hold: it says that the parameters of RSA-PSS never
  cause a failure. The certificate whose RSA-PSS parameters are cut off is rejected
  with the decoder's error, although the RSA key reader accepts its
  subjectPublicKeyInfo; the same certificate with an empty SEQUENCE for parameters is
  accepted.
\<close>

theorem pss_parameters_counterexample:
  "fst (parseBinary der_collaborators X509_init pss_truncated_certificate)
     = Inl decodeError \<and>
   fst (rsaPubKeyParsing der_collaborators (pss_spki [0x30, 5])
          (X509_init\<lparr>certAlg := Some ''rsa-pss''\<rparr>)) = Inr () \<and>
   fst (parseBinary der_collaborators X509_init pss_certificate) = Inr ()"
proof (intro conjI)
  show "fst (parseBinary der_collaborators X509_init pss_truncated_certificate)
     = Inl decodeError"
    by code_simp
  show "fst (rsaPubKeyParsing der_collaborators (pss_spki [0x30, 5])
          (X509_init\<lparr>certAlg := Some ''rsa-pss''\<rparr>)) = Inr ()"
    by code_simp
  show "fst (parseBinary der_collaborators X509_init pss_certificate) = Inr ()"
    by code_simp
qed

subsection \<open>The BIT STRING of the key\<close>

text \<open>
  C6, as amended. When the value of the BIT STRING starts with a non-zero byte, both key
  readers raise and leave the object as it was: \<^verbatim>\<open>_rsaPubKeyParsing\<close> raises the bare
  \<^verbatim>\<open>SyntaxError()\<close> (InvalidBitStringEncoding), \<^verbatim>\<open>_ecdsaPubKeyParsing\<close> raises
  \<^verbatim>\<open>SyntaxError("Unexpected public key encoding")\<close> (UnexpectedPublicKeyEncoding).
\<close>

theorem bit_string_unused_bits_rejected:
  assumes "getChild c spki 1 = Inr bits"
    and "nodeValue c bits = b # rest"
    and "b \<noteq> 0"
  shows "rsaPubKeyParsing c spki self = (Inl (SyntaxError []), self) \<and>
    ecdsaPubKeyParsing c spki cv self =
      (Inl (SyntaxError ''Unexpected public key encoding''), self)"
  using assms
  by (cases rest) (simp_all add: rsaPubKeyParsing_def ecdsaPubKeyParsing_def index0_def Let_def)

text \<open>A BIT STRING whose first byte is 1, given to both key readers.\<close>

theorem bit_string_unused_bits_rejected_witness:
  "getChild der_collaborators
       (example_spki_value oid_ecdsa (tlv 6 oid_p256) ec_unused_bits) 1
     = Inr ec_unused_bits \<and>
   nodeValue der_collaborators ec_unused_bits = 1 # tl ec_unused_bits \<and>
   (1 :: byte) \<noteq> 0 \<and>
   rsaPubKeyParsing der_collaborators
       (example_spki_value oid_ecdsa (tlv 6 oid_p256) ec_unused_bits) X509_init
     = (Inl (SyntaxError []), X509_init) \<and>
   ecdsaPubKeyParsing der_collaborators
       (example_spki_value oid_ecdsa (tlv 6 oid_p256) ec_unused_bits) NIST256p X509_init
     = (Inl (SyntaxError ''Unexpected public key encoding''), X509_init)"
proof -
  have h1: "getChild der_collaborators
      (example_spki_value oid_ecdsa (tlv 6 oid_p256) ec_unused_bits) 1
      = Inr ec_unused_bits"
    by code_simp
  have h2: "nodeValue der_collaborators ec_unused_bits = 1 # tl ec_unused_bits"
    by code_simp
  have h3: "(1 :: byte) \<noteq> 0"
    by simp
  show ?thesis
    using h1 h2 h3
      bit_string_unused_bits_rejected [OF h1 h2 h3, of X509_init NIST256p]
    by simp
qed

text \<open>
  C6 as the spec states it does not hold: it asks for InvalidBitStringEncoding on an
  ECDSA key too. The example ECDSA certificate whose BIT STRING starts with 1 is
  rejected with \<^verbatim>\<open>SyntaxError("Unexpected public key encoding")\<close>, which is not the bare
  \<^verbatim>\<open>SyntaxError()\<close> that the RSA reader raises for the unused-bit count.
\<close>

theorem bit_string_error_counterexample:
  "certAlg (snd (parseBinary der_collaborators X509_init ec_unused_bits_certificate))
     = Some ''ecdsa'' \<and>
   fst (parseBinary der_collaborators X509_init ec_unused_bits_certificate)
     = Inl (SyntaxError ''Unexpected public key encoding'') \<and>
   fst (parseBinary der_collaborators X509_init ec_unused_bits_certificate)
     \<noteq> Inl (SyntaxError [])"
  by (simp add: ec_unused_bits_certificate_parse)

text \<open>
  C7. When the value of the BIT STRING of an ECDSA key does not start with the two
  bytes 0x00 0x04 (so also when it starts with 0x00 0x03, a compressed point),
  \<^verbatim>\<open>_ecdsaPubKeyParsing\<close> raises \<^verbatim>\<open>SyntaxError("Unexpected public key encoding")\<close> and
  stores no key.
\<close>

theorem ecdsa_point_prefix_checked:
  assumes "getChild c spki 1 = Inr bits"
    and "take 2 (nodeValue c bits) \<noteq> [0, 4]"
  shows "ecdsaPubKeyParsing c spki cv self =
    (Inl (SyntaxError ''Unexpected public key encoding''), self)"
  using assms by (simp add: ecdsaPubKeyParsing_def Let_def)

text \<open>A BIT STRING that starts with 0x00 0x03, a compressed point.\<close>

theorem ecdsa_point_prefix_checked_witness:
  "getChild der_collaborators
       (example_spki_value oid_ecdsa (tlv 6 oid_p256) ([0, 3] @ replicate 32 1)) 1
     = Inr ([0, 3] @ replicate 32 1) \<and>
   take 2 (nodeValue der_collaborators ([0, 3] @ replicate 32 1)) \<noteq> [0, 4] \<and>
   ecdsaPubKeyParsing der_collaborators
       (example_spki_value oid_ecdsa (tlv 6 oid_p256) ([0, 3] @ replicate 32 1))
       NIST256p X509_init
     = (Inl (SyntaxError ''Unexpected public key encoding''), X509_init)"
proof -
  have h1: "getChild der_collaborators
      (example_spki_value oid_ecdsa (tlv 6 oid_p256) ([0, 3] @ replicate 32 1)) 1
      = Inr ([0, 3] @ replicate 32 1)"
    by code_simp
  have h2: "take 2 (nodeValue der_collaborators ([0, 3] @ replicate 32 1)) \<noteq> [0, 4]"
    by code_simp
  show ?thesis
    using h1 h2 ecdsa_point_prefix_checked [OF h1 h2, of NIST256p X509_init]
    by simp
qed

subsection \<open>The stored encoding\<close>

text \<open>
  C8. After a \<^verbatim>\<open>parseBinary\<close> that succeeded, \<^verbatim>\<open>writeBytes\<close> returns the bytes that were
  parsed: it returns the attribute \<^verbatim>\<open>bytes\<close> as it is stored, and that attribute holds
  the input. Nothing is encoded again from the other attributes.
\<close>

theorem writeBytes_parseBinary:
  "fst (parseBinary c self input) = Inr () \<Longrightarrow>
   writeBytes (snd (parseBinary c self input)) = input \<and>
   writeBytes (snd (parseBinary c self input)) = bytes (snd (parseBinary c self input))"
  by (simp add: writeBytes_def parseBinary_bytes)

text \<open>The example RSA certificate is accepted and comes back from \<^verbatim>\<open>writeBytes\<close>.\<close>

theorem writeBytes_parseBinary_witness:
  "fst (parseBinary der_collaborators X509_init rsa_certificate) = Inr () \<and>
   writeBytes (snd (parseBinary der_collaborators X509_init rsa_certificate))
     = rsa_certificate"
proof -
  have h: "fst (parseBinary der_collaborators X509_init rsa_certificate) = Inr ()"
    by (simp add: rsa_certificate_parse)
  show ?thesis
    using h writeBytes_parseBinary [OF h] by simp
qed

text \<open>
  C1, as amended. When \<^verbatim>\<open>parseBinary\<close> raises, \<^verbatim>\<open>publicKey\<close> is what it was before
  the call and \<^verbatim>\<open>bytes\<close> holds the input; \<^verbatim>\<open>subject\<close> and \<^verbatim>\<open>certAlg\<close> are either both
  what they were, or \<^verbatim>\<open>subject\<close> has been assigned and \<^verbatim>\<open>certAlg\<close> is what it was or
  one of the three algorithm names.
\<close>

theorem parseBinary_failure_state:
  assumes "fst (parseBinary c self input) = Inl e"
  shows "publicKey (snd (parseBinary c self input)) = publicKey self \<and>
    bytes (snd (parseBinary c self input)) = input \<and>
    (subject (snd (parseBinary c self input)) = subject self \<and>
       certAlg (snd (parseBinary c self input)) = certAlg self
     \<or> (\<exists>s. subject (snd (parseBinary c self input)) = Some s) \<and>
       (certAlg (snd (parseBinary c self input)) = certAlg self \<or>
        certAlg (snd (parseBinary c self input)) = Some ''rsa'' \<or>
        certAlg (snd (parseBinary c self input)) = Some ''rsa-pss'' \<or>
        certAlg (snd (parseBinary c self input)) = Some ''ecdsa''))"
proof -
  have tail: "publicKey (snd (parseBinary_algorithm c spki st)) = publicKey st \<and>
      (certAlg (snd (parseBinary_algorithm c spki st)) = certAlg st \<or>
       certAlg (snd (parseBinary_algorithm c spki st)) = Some ''rsa'' \<or>
       certAlg (snd (parseBinary_algorithm c spki st)) = Some ''rsa-pss'' \<or>
       certAlg (snd (parseBinary_algorithm c spki st)) = Some ''ecdsa'')"
    if "fst (parseBinary_algorithm c spki st) = Inl e" for spki st
    using parseBinary_algorithm_failure [OF that] .
  from assms show ?thesis
    by (auto simp: parseBinary_def Let_def parseBinary_algorithm_fields
          split: sum.splits dest!: tail)
qed

text \<open>The RSA certificate whose parameters are not NULL is rejected.\<close>

theorem parseBinary_failure_state_witness:
  "fst (parseBinary der_collaborators X509_init rsa_nonnull_certificate)
     = Inl (SyntaxError ''Unexpected non-NULL parameters in AlgorithmIdentifier'') \<and>
   publicKey (snd (parseBinary der_collaborators X509_init rsa_nonnull_certificate))
     = publicKey (X509_init :: pubkey X509) \<and>
   bytes (snd (parseBinary der_collaborators X509_init rsa_nonnull_certificate))
     = rsa_nonnull_certificate"
proof -
  have h: "fst (parseBinary der_collaborators X509_init rsa_nonnull_certificate)
      = Inl (SyntaxError ''Unexpected non-NULL parameters in AlgorithmIdentifier'')"
    by (simp add: rsa_nonnull_certificate_parse)
  show ?thesis
    using h parseBinary_failure_state [OF h] by simp
qed

text \<open>
  C1 as the spec states it does not hold: on that certificate, starting from a fresh
  object, \<^verbatim>\<open>parseBinary\<close> raises after it has assigned \<^verbatim>\<open>bytes\<close>, \<^verbatim>\<open>subject\<close> and
  \<^verbatim>\<open>certAlg\<close>, and before it assigns \<^verbatim>\<open>publicKey\<close>: three attributes are new and one
  is old.
\<close>

theorem parseBinary_partial_counterexample:
  "fst (parseBinary der_collaborators X509_init rsa_nonnull_certificate)
     = Inl (SyntaxError ''Unexpected non-NULL parameters in AlgorithmIdentifier'') \<and>
   bytes (snd (parseBinary der_collaborators X509_init rsa_nonnull_certificate))
     \<noteq> bytes (X509_init :: pubkey X509) \<and>
   subject (snd (parseBinary der_collaborators X509_init rsa_nonnull_certificate))
     \<noteq> subject (X509_init :: pubkey X509) \<and>
   certAlg (snd (parseBinary der_collaborators X509_init rsa_nonnull_certificate))
     \<noteq> certAlg (X509_init :: pubkey X509) \<and>
   publicKey (snd (parseBinary der_collaborators X509_init rsa_nonnull_certificate))
     = publicKey (X509_init :: pubkey X509)"
proof -
  have "rsa_nonnull_certificate \<noteq> []"
    by (simp add: rsa_nonnull_certificate_def example_certificate_def tlv_def)
  then show ?thesis
    unfolding rsa_nonnull_certificate_parse by (simp add: X509_init_def)
qed

subsection \<open>The fingerprint\<close>

lemma hexdigit_lower: "n < 16 \<Longrightarrow> hexdigit n \<in> set ''0123456789abcdef''"
  unfolding hexdigit_def by (rule nth_mem) simp

lemma b2a_hex_lower: "set (b2a_hex bs) \<subseteq> set ''0123456789abcdef''"
proof
  fix x
  assume "x \<in> set (b2a_hex bs)"
  then obtain b :: byte
    where "x = hexdigit (unat b div 16) \<or> x = hexdigit (unat b mod 16)"
    by (auto simp: b2a_hex_def)
  moreover have "unat b div 16 < 16"
    using unsigned_less [of b, where ?'a = nat] by simp
  moreover have "unat b mod 16 < 16"
    by simp
  ultimately show "x \<in> set ''0123456789abcdef''"
    using hexdigit_lower by blast
qed

lemma b2a_hex_length: "length (b2a_hex bs) = 2 * length bs"
  by (induction bs) (simp_all add: b2a_hex_def)

text \<open>
  C9. \<^verbatim>\<open>getFingerprint\<close> is the lowercase hexadecimal form of the SHA-1 digest of the
  attribute \<^verbatim>\<open>bytes\<close>, two digits for each byte of the digest. It reads no other
  attribute: whatever object \<open>other\<close> is, once its \<^verbatim>\<open>bytes\<close> are those of \<open>self\<close> its
  fingerprint is that of \<open>self\<close>. Being a function of \<^verbatim>\<open>bytes\<close>, it is deterministic.
\<close>

theorem getFingerprint_depends_on_bytes:
  "getFingerprint SHA1 self = b2a_hex (SHA1 (bytes self)) \<and>
   getFingerprint SHA1 (other\<lparr>bytes := bytes self\<rparr>) = getFingerprint SHA1 self \<and>
   length (getFingerprint SHA1 self) = 2 * length (SHA1 (bytes self)) \<and>
   set (getFingerprint SHA1 self) \<subseteq> set ''0123456789abcdef''"
proof (intro conjI)
  show "getFingerprint SHA1 self = b2a_hex (SHA1 (bytes self))"
    by (simp add: getFingerprint_def)
  show "getFingerprint SHA1 (other\<lparr>bytes := bytes self\<rparr>) = getFingerprint SHA1 self"
    by (simp add: getFingerprint_def)
  show "length (getFingerprint SHA1 self) = 2 * length (SHA1 (bytes self))"
    by (simp add: getFingerprint_def b2a_hex_length)
  show "set (getFingerprint SHA1 self) \<subseteq> set ''0123456789abcdef''"
    unfolding getFingerprint_def by (rule b2a_hex_lower)
qed

text \<open>
  C10. On an object fresh from \<^verbatim>\<open>__init__\<close>, on which nothing was parsed, the attribute
  \<^verbatim>\<open>bytes\<close> is the empty byte array, so \<^verbatim>\<open>getFingerprint\<close> returns the hexadecimal
  SHA-1 digest of the empty byte sequence; there is no \<^verbatim>\<open>None\<close> for the hash to fail on.
\<close>

theorem getFingerprint_init:
  "bytes (X509_init :: 'k X509) = [] \<and>
   getFingerprint SHA1 (X509_init :: 'k X509) = b2a_hex (SHA1 [])"
  by (simp add: getFingerprint_def X509_init_def)

end
